theory Spec2Isabelle
  imports Complex_Main "HOL-Library.Char_ord" "HOL-Library.List_Lexorder"
begin

section \<open>Feature extraction notebook: the metadata scan\<close>

text \<open>
  The first cell of the extraction notebook walks the root folders and parses every
  file name ending in \<open>.wav\<close>:
  \<^verbatim>\<open>
  for root in root_dirs:
      for subdir, _, files in os.walk(root):
          for file in files:
              if file.endswith(".wav"):
                  parts = file.split("-")
                  if len(parts) != 7:
                      continue  # skip malformed filenames
                  emotion_id = parts[2]
                  actor_id = int(parts[6].split(".")[0])
                  gender = "female" if actor_id % 2 == 0 else "male"
                  metadata.append({...})
  \<close>
  Strings are byte strings here (UTF-8); the separators \<open>-\<close> and \<open>.\<close> are
  ASCII, so splitting bytes and splitting code points agree.
\<close>

subsection \<open>Python's string operations\<close>

definition endswith :: "string \<Rightarrow> string \<Rightarrow> bool" where
  "endswith s suffix \<longleftrightarrow>
     length suffix \<le> length s \<and> drop (length s - length suffix) s = suffix"

text \<open>
  \<open>s.split(c)\<close> for a one-character separator: every occurrence of the separator ends
  a part, the parts may be empty and the result is never the empty list. The second
  argument of \<open>split_acc\<close> is the part being read, reversed.
\<close>

fun split_acc :: "char \<Rightarrow> string \<Rightarrow> string \<Rightarrow> string list" where
  "split_acc c acc [] = [rev acc]"
| "split_acc c acc (x # xs) =
     (if x = c then rev acc # split_acc c [] xs else split_acc c (x # acc) xs)"

definition py_split :: "string \<Rightarrow> char \<Rightarrow> string list" where
  "py_split s c = split_acc c [] s"

text \<open>
  The errors the scan can raise. \<open>ValueError s\<close> is what \<open>int(s)\<close> raises for a
  string \<open>s\<close> that is no integer literal; \<open>IndexError\<close> is an index out of range.
\<close>

datatype scan_error = ValueError string | IndexError

definition getitem :: "'a list \<Rightarrow> nat \<Rightarrow> scan_error + 'a" where
  "getitem xs i = (if i < length xs then Inr (xs ! i) else Inl IndexError)"

text \<open>
  \<open>int(s)\<close> in base 10, on ASCII text: white space (tab, line feed, vertical tab,
  form feed, carriage return, space) around the literal is skipped, one sign may come
  first, and the digits may be separated by single underscores. A file name is at most
  a few hundred bytes, far below the interpreter's limit on the number of digits.
  A decimal digit or a space outside ASCII is several bytes here and is not read as one.
\<close>

definition is_space :: "char \<Rightarrow> bool" where
  "is_space c \<longleftrightarrow> c \<in> set [CHR 0x09, CHR 0x0A, CHR 0x0B, CHR 0x0C, CHR 0x0D, CHR 0x20]"

definition strip_space :: "string \<Rightarrow> string" where
  "strip_space s = rev (dropWhile is_space (rev (dropWhile is_space s)))"

definition is_digit :: "char \<Rightarrow> bool" where
  "is_digit c \<longleftrightarrow> (48::nat) \<le> of_char c \<and> (of_char c :: nat) \<le> 57"

definition digit_val :: "char \<Rightarrow> nat" where
  "digit_val c = of_char c - 48"

fun py_digits :: "nat \<Rightarrow> string \<Rightarrow> nat option" where
  "py_digits acc [] = Some acc"
| "py_digits acc [c] = (if is_digit c then Some (acc * 10 + digit_val c) else None)"
| "py_digits acc (c # d # ds) =
     (if c = CHR ''_''
      then (if is_digit d then py_digits (acc * 10 + digit_val d) ds else None)
      else if is_digit c then py_digits (acc * 10 + digit_val c) (d # ds)
      else None)"

definition py_nat :: "string \<Rightarrow> nat option" where
  "py_nat s = (case s of [] \<Rightarrow> None
     | c # cs \<Rightarrow> if is_digit c then py_digits (digit_val c) cs else None)"

definition py_int :: "string \<Rightarrow> scan_error + int" where
  "py_int s =
     (let t = strip_space s;
          r = (case t of
                 [] \<Rightarrow> None
               | c # cs \<Rightarrow>
                   if c = CHR ''+'' then map_option int (py_nat cs)
                   else if c = CHR ''-'' then map_option (\<lambda>n. - int n) (py_nat cs)
                   else map_option int (py_nat t))
      in case r of None \<Rightarrow> Inl (ValueError s) | Some n \<Rightarrow> Inr n)"

text \<open>\<open>os.path.join(subdir, file)\<close> on a POSIX system.\<close>

definition path_join :: "string \<Rightarrow> string \<Rightarrow> string" where
  "path_join a b =
     (if b \<noteq> [] \<and> hd b = CHR ''/'' then b
      else if a = [] \<or> last a = CHR ''/'' then a @ b
      else a @ ''/'' @ b)"

subsection \<open>The metadata table\<close>

definition root_dirs :: "string list" where
  "root_dirs = [''input'', ''audio_speech_actors_01-24'']"

definition emotion_map :: "string \<rightharpoonup> string" where
  "emotion_map = map_of
     [(''01'', ''neutral''), (''02'', ''calm''), (''03'', ''happy''), (''04'', ''sad''),
      (''05'', ''angry''), (''06'', ''fearful''), (''07'', ''disgust''),
      (''08'', ''surprised'')]"

text \<open>\<open>d.get(k, default)\<close> on a dictionary.\<close>

definition dict_get :: "('k \<rightharpoonup> 'v) \<Rightarrow> 'k \<Rightarrow> 'v \<Rightarrow> 'v" where
  "dict_get d k dflt = (case d k of None \<Rightarrow> dflt | Some v \<Rightarrow> v)"

record metadata_row =
  filename :: string
  filepath :: string
  emotion :: string
  gender :: string
  actor_id :: int

text \<open>
  The body of the innermost loop for one file: the table is returned unchanged when the
  file is skipped, extended by one row when it is parsed, and an error ends the scan.
\<close>

definition scan_file :: "string \<Rightarrow> string \<Rightarrow> metadata_row list \<Rightarrow> scan_error + metadata_row list" where
  "scan_file subdir file metadata =
     (if endswith file ''.wav'' then
        (let parts = py_split file CHR ''-'' in
         if length parts \<noteq> 7 then Inr metadata
         else
           (case getitem parts 2 of Inl e \<Rightarrow> Inl e | Inr emotion_id \<Rightarrow>
           (case getitem parts 6 of Inl e \<Rightarrow> Inl e | Inr actor_part \<Rightarrow>
           (case getitem (py_split actor_part CHR ''.'') 0 of Inl e \<Rightarrow> Inl e | Inr actor_text \<Rightarrow>
           (case py_int actor_text of Inl e \<Rightarrow> Inl e | Inr actor \<Rightarrow>
             (let g = (if actor mod 2 = 0 then ''female'' else ''male'') in
              Inr (metadata @
                [\<lparr>filename = file,
                  filepath = path_join subdir file,
                  emotion = dict_get emotion_map emotion_id ''unknown'',
                  gender = g,
                  actor_id = actor\<rparr>])))))))
      else Inr metadata)"

fun scan_files :: "string \<Rightarrow> string list \<Rightarrow> metadata_row list \<Rightarrow> scan_error + metadata_row list" where
  "scan_files subdir [] metadata = Inr metadata"
| "scan_files subdir (file # files) metadata =
     (case scan_file subdir file metadata of
        Inl e \<Rightarrow> Inl e
      | Inr metadata' \<Rightarrow> scan_files subdir files metadata')"

text \<open>
  \<open>os.walk(root)\<close> is the file system's answer: the list of triples
  (directory, subdirectories, files) it yields, empty for a root that does not exist.
\<close>

type_synonym walk_entry = "string \<times> string list \<times> string list"

fun scan_walk :: "walk_entry list \<Rightarrow> metadata_row list \<Rightarrow> scan_error + metadata_row list" where
  "scan_walk [] metadata = Inr metadata"
| "scan_walk ((subdir, dirs, files) # entries) metadata =
     (case scan_files subdir files metadata of
        Inl e \<Rightarrow> Inl e
      | Inr metadata' \<Rightarrow> scan_walk entries metadata')"

fun scan_roots :: "(string \<Rightarrow> walk_entry list) \<Rightarrow> string list \<Rightarrow> metadata_row list
    \<Rightarrow> scan_error + metadata_row list" where
  "scan_roots os_walk [] metadata = Inr metadata"
| "scan_roots os_walk (root_dir # roots) metadata =
     (case scan_walk (os_walk root_dir) metadata of
        Inl e \<Rightarrow> Inl e
      | Inr metadata' \<Rightarrow> scan_roots os_walk roots metadata')"

definition scan :: "(string \<Rightarrow> walk_entry list) \<Rightarrow> scan_error + metadata_row list" where
  "scan os_walk = scan_roots os_walk root_dirs []"

section \<open>Feature extraction notebook: MFCC matrices and the dataset\<close>

subsection \<open>extract\_mfcc\<close>

text \<open>
  \<^verbatim>\<open>
  def extract_mfcc(filepath, n_mfcc=40, max_pad_len=174):
      try:
          audio, sr = librosa.load(filepath, sr=None)
          mfcc = librosa.feature.mfcc(y=audio, sr=sr, n_mfcc=n_mfcc)
          if mfcc.shape[1] < max_pad_len:
              pad_width = max_pad_len - mfcc.shape[1]
              mfcc = np.pad(mfcc, pad_width=((0, 0), (0, pad_width)), mode='constant')
          else:
              mfcc = mfcc[:, :max_pad_len]
          return mfcc
      except Exception as e:
          print(f"Error processing {filepath}: {e}")
          return None
  \<close>
  The two functions of the audio library are parameters: each returns its value or the
  exception it raises. \<open>Exception m\<close> is an instance of Python's class
  \<open>Exception\<close> whose text is \<open>m\<close>; \<open>BaseException m\<close> is one of the exceptions
  outside that class (\<open>KeyboardInterrupt\<close>, \<open>SystemExit\<close>), which the clause
  \<open>except Exception\<close> does not catch.
\<close>

datatype raised = Exception string | BaseException string

fun is_Exception :: "raised \<Rightarrow> bool" where
  "is_Exception (Exception m) = True"
| "is_Exception (BaseException m) = False"

text \<open>
  A two-dimensional array is the list of its rows, all of the same length. The element
  type is any type with a zero: the padding value of \<open>np.pad\<close> in constant mode.
\<close>

type_synonym 'a matrix = "'a list list"

definition has_shape :: "'a matrix \<Rightarrow> nat \<Rightarrow> nat \<Rightarrow> bool" where
  "has_shape m r c \<longleftrightarrow> length m = r \<and> (\<forall>row \<in> set m. length row = c)"

text \<open>\<open>m.shape[1]\<close> of an array with at least one row.\<close>

definition shape1 :: "'a matrix \<Rightarrow> nat" where
  "shape1 m = (case m of [] \<Rightarrow> 0 | row # _ \<Rightarrow> length row)"

text \<open>\<open>np.pad(m, pad_width=((0, 0), (0, pad_width)), mode='constant')\<close>\<close>

definition np_pad :: "'a::zero matrix \<Rightarrow> nat \<Rightarrow> 'a matrix" where
  "np_pad m pad_width = map (\<lambda>row. row @ replicate pad_width 0) m"

text \<open>\<open>m[:, :n]\<close>\<close>

definition slice_cols :: "'a matrix \<Rightarrow> nat \<Rightarrow> 'a matrix" where
  "slice_cols m n = map (take n) m"

text \<open>The body of the \<open>try\<close> block.\<close>

definition mfcc_body :: "(string \<Rightarrow> raised + 'w \<times> 'r) \<Rightarrow> ('w \<Rightarrow> 'r \<Rightarrow> nat \<Rightarrow> raised + 'a::zero matrix)
    \<Rightarrow> string \<Rightarrow> nat \<Rightarrow> nat \<Rightarrow> raised + 'a matrix" where
  "mfcc_body librosa_load librosa_mfcc path n_mfcc max_pad_len =
     (case librosa_load path of
        Inl e \<Rightarrow> Inl e
      | Inr (audio, sr) \<Rightarrow>
          (case librosa_mfcc audio sr n_mfcc of
             Inl e \<Rightarrow> Inl e
           | Inr mfcc \<Rightarrow>
               if shape1 mfcc < max_pad_len
               then (let pad_width = max_pad_len - shape1 mfcc in Inr (np_pad mfcc pad_width))
               else Inr (slice_cols mfcc max_pad_len)))"

text \<open>
  The function returns the matrix (or \<open>None\<close>) and the lines it printed, or the
  exception that leaves it.
\<close>

definition extract_mfcc :: "(string \<Rightarrow> raised + 'w \<times> 'r) \<Rightarrow> ('w \<Rightarrow> 'r \<Rightarrow> nat \<Rightarrow> raised + 'a::zero matrix)
    \<Rightarrow> string \<Rightarrow> nat \<Rightarrow> nat \<Rightarrow> raised + ('a matrix option \<times> string list)" where
  "extract_mfcc librosa_load librosa_mfcc path n_mfcc max_pad_len =
     (case mfcc_body librosa_load librosa_mfcc path n_mfcc max_pad_len of
        Inr mfcc \<Rightarrow> Inr (Some mfcc, [])
      | Inl (Exception m) \<Rightarrow> Inr (None, [''Error processing '' @ path @ '': '' @ m])
      | Inl (BaseException m) \<Rightarrow> Inl (BaseException m))"

subsection \<open>The dataset loop\<close>

text \<open>
  \<^verbatim>\<open>
  X = []
  y = []
  print("Extracting MFCC features...")
  for _, row in tqdm(df.iterrows(), total=len(df)):
      mfcc = extract_mfcc(row['filepath'])
      if mfcc is not None:
          X.append(mfcc)
          y.append(row['emotion'])
  X = np.array(X)
  y = np.array(y)
  np.save("X_mfcc.npy", X)
  np.save("y_labels.npy", y)
  print("... MFCC features and labels saved as 'X_mfcc.npy' and 'y_labels.npy'")
  \<close>
  The loop calls \<open>extract_mfcc\<close> with its default arguments, 40 and 174. The state
  is the two lists and the text printed so far (the progress bar writes to the error
  stream and is left out).
\<close>

fun dataset_loop :: "(string \<Rightarrow> raised + 'w \<times> 'r) \<Rightarrow> ('w \<Rightarrow> 'r \<Rightarrow> nat \<Rightarrow> raised + 'a::zero matrix)
    \<Rightarrow> metadata_row list \<Rightarrow> 'a matrix list \<Rightarrow> string list \<Rightarrow> string list
    \<Rightarrow> raised + ('a matrix list \<times> string list \<times> string list)" where
  "dataset_loop librosa_load librosa_mfcc [] X y out = Inr (X, y, out)"
| "dataset_loop librosa_load librosa_mfcc (row # rows) X y out =
     (case extract_mfcc librosa_load librosa_mfcc (filepath row) 40 174 of
        Inl e \<Rightarrow> Inl e
      | Inr (Some mfcc, printed) \<Rightarrow>
          dataset_loop librosa_load librosa_mfcc rows (X @ [mfcc]) (y @ [emotion row]) (out @ printed)
      | Inr (None, printed) \<Rightarrow>
          dataset_loop librosa_load librosa_mfcc rows X y (out @ printed))"

record 'a saved_dataset =
  X_mfcc_npy :: "'a matrix list"
  y_labels_npy :: "string list"
  printed_lines :: "string list"

definition saved_message :: string where
  "saved_message = [CHR 0xE2, CHR 0x9C, CHR 0x85] @ '' MFCC features and labels saved as ''
     @ [CHR 0x27] @ ''X_mfcc.npy'' @ [CHR 0x27] @ '' and '' @ [CHR 0x27] @ ''y_labels.npy'' @ [CHR 0x27]"

definition build_dataset :: "(string \<Rightarrow> raised + 'w \<times> 'r) \<Rightarrow> ('w \<Rightarrow> 'r \<Rightarrow> nat \<Rightarrow> raised + 'a::zero matrix)
    \<Rightarrow> metadata_row list \<Rightarrow> raised + 'a saved_dataset" where
  "build_dataset librosa_load librosa_mfcc df =
     (case dataset_loop librosa_load librosa_mfcc df [] [] [''Extracting MFCC features...''] of
        Inl e \<Rightarrow> Inl e
      | Inr (X, y, out) \<Rightarrow>
          Inr \<lparr>X_mfcc_npy = X, y_labels_npy = y, printed_lines = out @ [saved_message]\<rparr>)"

text \<open>
  What one row contributes: its matrix when the extraction succeeded, nothing otherwise.
\<close>

definition row_mfcc :: "(string \<Rightarrow> raised + 'w \<times> 'r) \<Rightarrow> ('w \<Rightarrow> 'r \<Rightarrow> nat \<Rightarrow> raised + 'a::zero matrix)
    \<Rightarrow> metadata_row \<Rightarrow> 'a matrix option" where
  "row_mfcc librosa_load librosa_mfcc row =
     (case extract_mfcc librosa_load librosa_mfcc (filepath row) 40 174 of
        Inr (Some mfcc, printed) \<Rightarrow> Some mfcc
      | _ \<Rightarrow> None)"

definition row_returns :: "(string \<Rightarrow> raised + 'w \<times> 'r) \<Rightarrow> ('w \<Rightarrow> 'r \<Rightarrow> nat \<Rightarrow> raised + 'a::zero matrix)
    \<Rightarrow> metadata_row \<Rightarrow> bool" where
  "row_returns librosa_load librosa_mfcc row =
     (\<not> isl (extract_mfcc librosa_load librosa_mfcc (filepath row) 40 174))"

text \<open>The lines printed while one row is processed.\<close>

definition row_printed :: "(string \<Rightarrow> raised + 'w \<times> 'r) \<Rightarrow> ('w \<Rightarrow> 'r \<Rightarrow> nat \<Rightarrow> raised + 'a::zero matrix)
    \<Rightarrow> metadata_row \<Rightarrow> string list" where
  "row_printed librosa_load librosa_mfcc row =
     (case extract_mfcc librosa_load librosa_mfcc (filepath row) 40 174 of
        Inr (r, printed) \<Rightarrow> printed
      | Inl e \<Rightarrow> [])"

section \<open>Training notebook\<close>

subsection \<open>Arrays of floating-point numbers\<close>

text \<open>
  \<^verbatim>\<open>
  def load_data(x_path="X_mfcc.npy", y_path="y_labels.npy"):
      X = np.load(x_path)
      y = np.load(y_path)
      X = (X - np.mean(X, axis=0)) / np.std(X, axis=0)
      X = X[..., np.newaxis]  # Shape: (samples, 40, 174, 1)
      le = LabelEncoder()
      y_encoded = le.fit_transform(y)
      y_cat = to_categorical(y_encoded)
      return X, y_cat, le
  \<close>
  The element type \<open>'a\<close> of the feature array stands for the machine's floating-point
  numbers, and the array library's arithmetic on them is a parameter: the subtraction and
  the division of two numbers, and the mean and the standard deviation of the numbers
  found along the sample axis at one position. Nothing is assumed of them, so what is
  proved holds whatever the rounding.
\<close>

record 'a float_ops =
  np_subtract :: "'a \<Rightarrow> 'a \<Rightarrow> 'a"
  np_divide :: "'a \<Rightarrow> 'a \<Rightarrow> 'a"
  np_mean :: "'a list \<Rightarrow> 'a"
  np_std :: "'a list \<Rightarrow> 'a"

type_synonym 'a tensor3 = "'a list list list"

type_synonym 'a tensor4 = "'a list list list list"

definition has_shape3 :: "'a tensor3 \<Rightarrow> nat \<Rightarrow> nat \<Rightarrow> nat \<Rightarrow> bool" where
  "has_shape3 X n r c \<longleftrightarrow> length X = n \<and> (\<forall>S \<in> set X. has_shape S r c)"

definition has_shape4 :: "'a tensor4 \<Rightarrow> nat \<Rightarrow> nat \<Rightarrow> nat \<Rightarrow> nat \<Rightarrow> bool" where
  "has_shape4 X n r c d \<longleftrightarrow> length X = n \<and> (\<forall>S \<in> set X. has_shape3 S r c d)"

text \<open>The values along axis 0 at position \<open>(j, k)\<close>: one per sample, in order.\<close>

definition column :: "'a tensor3 \<Rightarrow> nat \<Rightarrow> nat \<Rightarrow> 'a list" where
  "column X j k = map (\<lambda>S. S ! j ! k) X"

text \<open>
  A reduction along axis 0 (\<open>np.mean(X, axis=0)\<close>, \<open>np.std(X, axis=0)\<close>): one value
  per position of a sample. Of an array without samples only the samples are kept here,
  not the shape of one; every operation below then yields the array without samples.
\<close>

definition reduce_axis0 :: "('a list \<Rightarrow> 'a) \<Rightarrow> 'a tensor3 \<Rightarrow> 'a matrix" where
  "reduce_axis0 f X =
     (case X of
        [] \<Rightarrow> []
      | S # _ \<Rightarrow> map (\<lambda>j. map (\<lambda>k. f (column X j k)) [0..<length (S ! j)]) [0..<length S])"

text \<open>
  An operation between a three-dimensional array and a matrix of the shape of one
  sample: the matrix is broadcast over the samples. The matrix is computed from the
  array itself below, so the shapes always agree.
\<close>

definition broadcast :: "('a \<Rightarrow> 'a \<Rightarrow> 'a) \<Rightarrow> 'a tensor3 \<Rightarrow> 'a matrix \<Rightarrow> 'a tensor3" where
  "broadcast f X M = map (\<lambda>S. map2 (map2 f) S M) X"

definition normalize :: "'a float_ops \<Rightarrow> 'a tensor3 \<Rightarrow> 'a tensor3" where
  "normalize ops X =
     broadcast (np_divide ops)
       (broadcast (np_subtract ops) X (reduce_axis0 (np_mean ops) X))
       (reduce_axis0 (np_std ops) X)"

text \<open>\<open>X[..., np.newaxis]\<close>\<close>

definition newaxis :: "'a tensor3 \<Rightarrow> 'a tensor4" where
  "newaxis X = map (map (map (\<lambda>x. [x]))) X"

subsection \<open>Label encoding\<close>

text \<open>
  \<open>LabelEncoder.fit_transform(y)\<close>: the classes are the distinct labels in sorted order
  (\<open>np.unique\<close>), and each label is replaced by its index among the classes. Strings
  are compared character by character, as the lexicographic order on byte lists does.
\<close>

definition np_unique :: "string list \<Rightarrow> string list" where
  "np_unique y = sort (remdups y)"

fun index_of :: "'a \<Rightarrow> 'a list \<Rightarrow> nat" where
  "index_of v [] = 0"
| "index_of v (x # xs) = (if x = v then 0 else Suc (index_of v xs))"

definition fit_transform :: "string list \<Rightarrow> string list \<times> nat list" where
  "fit_transform y = (let classes = np_unique y in (classes, map (\<lambda>l. index_of l classes) y))"

text \<open>
  What the training notebook can raise before the model is built: a file that cannot be
  loaded, the \<open>ValueError\<close> of \<open>np.max\<close> and \<open>np.argmax\<close> on an array without
  elements, and whatever the library's split raises.
\<close>

datatype train_error = LoadError string | ZeroSizeArray | SplitError string

text \<open>
  \<open>to_categorical(y)\<close> with no class count given: \<open>num_classes = np.max(y) + 1\<close>,
  and row \<open>i\<close> is zero but for a one at index \<open>y[i]\<close>.
\<close>

definition to_categorical :: "nat list \<Rightarrow> train_error + real matrix" where
  "to_categorical y =
     (case y of
        [] \<Rightarrow> Inl ZeroSizeArray
      | c # cs \<Rightarrow>
          (let num_classes = fold max cs c + 1
           in Inr (map (\<lambda>c. map (\<lambda>j. if j = c then 1 else 0) [0..<num_classes]) y)))"

text \<open>\<open>np.argmax\<close> of a row: the first index that holds the greatest value.\<close>

definition np_argmax :: "real list \<Rightarrow> train_error + nat" where
  "np_argmax row =
     (case row of [] \<Rightarrow> Inl ZeroSizeArray | x # xs \<Rightarrow> Inr (index_of (fold max xs x) row))"

text \<open>\<open>np.argmax(m, axis=1)\<close>, as \<open>evaluate_model\<close> applies it to the one-hot labels.\<close>

fun argmax_axis1 :: "real matrix \<Rightarrow> train_error + nat list" where
  "argmax_axis1 [] = Inr []"
| "argmax_axis1 (row # rows) =
     (case np_argmax row of
        Inl e \<Rightarrow> Inl e
      | Inr c \<Rightarrow> (case argmax_axis1 rows of Inl e \<Rightarrow> Inl e | Inr cs \<Rightarrow> Inr (c # cs)))"

subsection \<open>load\_data, build\_model and main\<close>

text \<open>
  \<open>np.load\<close> is the file system's answer for a path: the array stored there, or the
  error raised. The encoder is returned as its list of classes.
\<close>

definition load_data :: "(string \<Rightarrow> train_error + 'a tensor3) \<Rightarrow> (string \<Rightarrow> train_error + string list)
    \<Rightarrow> 'a float_ops \<Rightarrow> string \<Rightarrow> string \<Rightarrow> train_error + ('a tensor4 \<times> real matrix \<times> string list)" where
  "load_data np_load_X np_load_y ops x_path y_path =
     (case np_load_X x_path of
        Inl e \<Rightarrow> Inl e
      | Inr X0 \<Rightarrow>
          (case np_load_y y_path of
             Inl e \<Rightarrow> Inl e
           | Inr y \<Rightarrow>
               (let X1 = normalize ops X0;
                    X = newaxis X1;
                    (le, y_encoded) = fit_transform y
                in case to_categorical y_encoded of
                     Inl e \<Rightarrow> Inl e
                   | Inr y_cat \<Rightarrow> Inr (X, y_cat, le))))"

text \<open>
  \<^verbatim>\<open>
  def split_data(X, y_cat, test_size=0.2, random_state=42):
      return train_test_split(X, y_cat, test_size=test_size,
                              random_state=random_state, stratify=y_cat)
  \<close>
  The library's split is a parameter.
\<close>

definition split_data :: "('x \<Rightarrow> 'y \<Rightarrow> real \<Rightarrow> nat \<Rightarrow> 'y \<Rightarrow> train_error + 's) \<Rightarrow> 'x \<Rightarrow> 'y \<Rightarrow> train_error + 's" where
  "split_data train_test_split X y_cat = train_test_split X y_cat (2 / 10) 42 y_cat"

text \<open>
  \<^verbatim>\<open>
  def build_model(input_shape=(40, 174, 1), num_classes=8):
      model = Sequential([
          Conv2D(32, (3, 3), activation='relu', input_shape=input_shape),
          MaxPooling2D((2, 2)), Dropout(0.3),
          Conv2D(64, (3, 3), activation='relu'),
          MaxPooling2D((2, 2)), Dropout(0.3),
          Flatten(), Dense(128, activation='relu'), Dropout(0.3),
          Dense(num_classes, activation='softmax')])
      model.compile(optimizer='adam', loss='categorical_crossentropy', metrics=['accuracy'])
      return model
  \<close>
  The model is described by its layers and its training configuration.
\<close>

datatype activation = relu | softmax

datatype layer =
    Conv2D nat "nat \<times> nat" activation
  | MaxPooling2D "nat \<times> nat"
  | Dropout real
  | Flatten
  | Dense nat activation

record model =
  input_shape :: "nat \<times> nat \<times> nat"
  layers :: "layer list"
  optimizer :: string
  loss :: string
  metrics :: "string list"

definition build_model :: "nat \<times> nat \<times> nat \<Rightarrow> nat \<Rightarrow> model" where
  "build_model shape num_classes =
     \<lparr>input_shape = shape,
      layers =
        [Conv2D 32 (3, 3) relu, MaxPooling2D (2, 2), Dropout (3 / 10),
         Conv2D 64 (3, 3) relu, MaxPooling2D (2, 2), Dropout (3 / 10),
         Flatten, Dense 128 relu, Dropout (3 / 10),
         Dense num_classes softmax],
      optimizer = ''adam'',
      loss = ''categorical_crossentropy'',
      metrics = [''accuracy'']\<rparr>"

text \<open>The number of units of the last layer: the width of the model's output.\<close>

definition output_units :: "model \<Rightarrow> nat option" where
  "output_units m =
     (case rev (layers m) of Dense n a # _ \<Rightarrow> Some n | _ \<Rightarrow> None)"

text \<open>
  \<^verbatim>\<open>
  def main():
      X, y_cat, le = load_data()
      X_train, X_test, y_train, y_test = split_data(X, y_cat)
      model = build_model()
      ...
  \<close>
  The start of \<open>main\<close>, up to the model it builds; training, plotting and saving are
  the library's and follow it.
\<close>

definition main_model :: "(string \<Rightarrow> train_error + 'a tensor3) \<Rightarrow> (string \<Rightarrow> train_error + string list)
    \<Rightarrow> 'a float_ops \<Rightarrow> ('a tensor4 \<Rightarrow> real matrix \<Rightarrow> real \<Rightarrow> nat \<Rightarrow> real matrix \<Rightarrow> train_error + 's)
    \<Rightarrow> train_error + ('s \<times> model)" where
  "main_model np_load_X np_load_y ops train_test_split =
     (case load_data np_load_X np_load_y ops ''X_mfcc.npy'' ''y_labels.npy'' of
        Inl e \<Rightarrow> Inl e
      | Inr (X, y_cat, le) \<Rightarrow>
          (case split_data train_test_split X y_cat of
             Inl e \<Rightarrow> Inl e
           | Inr parts \<Rightarrow> Inr (parts, build_model (40, 174, 1) 8)))"

subsection \<open>An instance of the floating-point operations\<close>

text \<open>
  The real numbers extended by the two infinities and by NaN, with the rules of IEEE 754
  for the special values and exact arithmetic on the finite ones (signed zeros and
  rounding are left out). The mean is the sum divided by the count and the standard
  deviation is the root of the mean squared deviation, as the array library defines
  them. The instance shows that the hypotheses made of the operations can be met, and
  it evaluates the theorems on small arrays.
\<close>

datatype ieee = Finite real | PosInf | NegInf | NaN

fun is_finite :: "ieee \<Rightarrow> bool" where
  "is_finite (Finite a) = True"
| "is_finite x = False"

fun is_zero :: "ieee \<Rightarrow> bool" where
  "is_zero (Finite a) = (a = 0)"
| "is_zero x = False"

fun ieee_neg :: "ieee \<Rightarrow> ieee" where
  "ieee_neg (Finite a) = Finite (- a)"
| "ieee_neg PosInf = NegInf"
| "ieee_neg NegInf = PosInf"
| "ieee_neg NaN = NaN"

fun ieee_add :: "ieee \<Rightarrow> ieee \<Rightarrow> ieee" where
  "ieee_add NaN y = NaN"
| "ieee_add x NaN = NaN"
| "ieee_add (Finite a) (Finite b) = Finite (a + b)"
| "ieee_add (Finite a) y = y"
| "ieee_add x (Finite b) = x"
| "ieee_add PosInf PosInf = PosInf"
| "ieee_add NegInf NegInf = NegInf"
| "ieee_add x y = NaN"

definition ieee_sub :: "ieee \<Rightarrow> ieee \<Rightarrow> ieee" where
  "ieee_sub x y = ieee_add x (ieee_neg y)"

fun ieee_div :: "ieee \<Rightarrow> ieee \<Rightarrow> ieee" where
  "ieee_div NaN y = NaN"
| "ieee_div x NaN = NaN"
| "ieee_div (Finite a) (Finite b) =
     (if b = 0 then (if a = 0 then NaN else if 0 < a then PosInf else NegInf)
      else Finite (a / b))"
| "ieee_div (Finite a) y = Finite 0"
| "ieee_div PosInf (Finite b) = (if b < 0 then NegInf else PosInf)"
| "ieee_div NegInf (Finite b) = (if b < 0 then PosInf else NegInf)"
| "ieee_div x y = NaN"

fun ieee_square :: "ieee \<Rightarrow> ieee" where
  "ieee_square (Finite a) = Finite (a * a)"
| "ieee_square NaN = NaN"
| "ieee_square x = PosInf"

fun ieee_sqrt :: "ieee \<Rightarrow> ieee" where
  "ieee_sqrt (Finite a) = (if a < 0 then NaN else Finite (sqrt a))"
| "ieee_sqrt PosInf = PosInf"
| "ieee_sqrt x = NaN"

definition ieee_mean :: "ieee list \<Rightarrow> ieee" where
  "ieee_mean xs = ieee_div (foldl ieee_add (Finite 0) xs) (Finite (real (length xs)))"

definition ieee_std :: "ieee list \<Rightarrow> ieee" where
  "ieee_std xs =
     ieee_sqrt (ieee_mean (map (\<lambda>x. ieee_square (ieee_sub x (ieee_mean xs))) xs))"

definition ieee_ops :: "ieee float_ops" where
  "ieee_ops = \<lparr>np_subtract = ieee_sub, np_divide = ieee_div, np_mean = ieee_mean, np_std = ieee_std\<rparr>"

section \<open>Properties of the operations\<close>

subsection \<open>The scan: errors and parsed files\<close>

text \<open>
  The only error the scan raises is the \<open>ValueError\<close> of the integer parse: the indices
  2, 6 and 0 are in range where they are read. An error in the loop body ends every
  enclosing loop.
\<close>

lemma split_acc_nonempty: "split_acc c acc s \<noteq> []"
  by (induction s arbitrary: acc) auto

lemma py_split_nonempty: "py_split s c \<noteq> []"
  by (simp add: py_split_def split_acc_nonempty)

lemma py_int_error: "py_int s = Inl e \<Longrightarrow> e = ValueError s"
  by (auto simp: py_int_def Let_def split: option.splits)

lemma scan_file_error: "scan_file subdir file metadata = Inl e \<Longrightarrow> \<exists>lit. e = ValueError lit"
  by (auto simp: scan_file_def Let_def getitem_def py_split_nonempty dest: py_int_error
      split: if_splits sum.splits)

lemma scan_files_error: "scan_files subdir files metadata = Inl e \<Longrightarrow> \<exists>lit. e = ValueError lit"
  by (induction files arbitrary: metadata) (auto split: sum.splits dest: scan_file_error)

lemma scan_walk_error: "scan_walk entries metadata = Inl e \<Longrightarrow> \<exists>lit. e = ValueError lit"
  by (induction entries metadata rule: scan_walk.induct) (auto split: sum.splits dest: scan_files_error)

lemma scan_roots_error: "scan_roots os_walk roots metadata = Inl e \<Longrightarrow> \<exists>lit. e = ValueError lit"
  by (induction roots arbitrary: metadata) (auto split: sum.splits dest: scan_walk_error)







subsection \<open>Shapes of matrices\<close>

lemma has_shape_np_pad: "has_shape m r c \<Longrightarrow> has_shape (np_pad m p) r (c + p)"
  by (auto simp: has_shape_def np_pad_def)

lemma has_shape_slice_cols: "has_shape m r c \<Longrightarrow> n \<le> c \<Longrightarrow> has_shape (slice_cols m n) r n"
  by (auto simp: has_shape_def slice_cols_def)

lemma shape1_eq: "has_shape m r c \<Longrightarrow> 0 < r \<Longrightarrow> shape1 m = c"
  by (cases m) (auto simp: has_shape_def shape1_def)

lemma slice_cols_id: "has_shape m r c \<Longrightarrow> c \<le> n \<Longrightarrow> slice_cols m n = m"
  by (auto simp: has_shape_def slice_cols_def map_idI)

subsection \<open>Normalization, position by position\<close>

lemma has_shape3_nth: "has_shape3 X n r c \<Longrightarrow> i < n \<Longrightarrow> has_shape (X ! i) r c"
  by (auto simp: has_shape3_def)

lemma has_shape_reduce_axis0:
  assumes "has_shape3 X n r c" and "X \<noteq> []"
  shows "has_shape (reduce_axis0 f X) r c"
proof -
  from assms obtain S rest where X: "X = S # rest" by (cases X) auto
  with assms(1) have S: "has_shape S r c" by (simp add: has_shape3_def)
  then have "length S = r" and "\<And>j. j < r \<Longrightarrow> length (S ! j) = c"
    by (auto simp: has_shape_def)
  then show ?thesis by (auto simp: X reduce_axis0_def has_shape_def)
qed

lemma reduce_axis0_nth:
  assumes "has_shape3 X n r c" and "X \<noteq> []" and "j < r" and "k < c"
  shows "reduce_axis0 f X ! j ! k = f (column X j k)"
proof -
  from assms obtain S rest where X: "X = S # rest" by (cases X) auto
  with assms(1) have S: "has_shape S r c" by (simp add: has_shape3_def)
  then have "length S = r" and "length (S ! j) = c"
    using assms(3) by (auto simp: has_shape_def)
  then show ?thesis using assms(3,4) by (simp add: X reduce_axis0_def)
qed

lemma map2_map2_nth:
  assumes "has_shape S r c" and "has_shape M r c" and "j < r" and "k < c"
  shows "map2 (map2 f) S M ! j ! k = f (S ! j ! k) (M ! j ! k)"
  using assms by (simp add: has_shape_def)

lemma has_shape_map2_map2:
  assumes "has_shape S r c" and "has_shape M r c"
  shows "has_shape (map2 (map2 f) S M) r c"
  using assms by (auto simp: has_shape_def set_zip)

lemma has_shape3_broadcast:
  "has_shape3 X n r c \<Longrightarrow> has_shape M r c \<Longrightarrow> has_shape3 (broadcast f X M) n r c"
  by (auto simp: has_shape3_def broadcast_def has_shape_map2_map2)

lemma broadcast_nth:
  assumes "has_shape3 X n r c" and "has_shape M r c" and "i < n" and "j < r" and "k < c"
  shows "broadcast f X M ! i ! j ! k = f (X ! i ! j ! k) (M ! j ! k)"
proof -
  have "length X = n" using assms(1) by (simp add: has_shape3_def)
  moreover have "has_shape (X ! i) r c" using assms(1,3) by (rule has_shape3_nth)
  ultimately show ?thesis
    using assms(2-5) by (simp add: broadcast_def map2_map2_nth)
qed

lemma normalize_shape:
  assumes "has_shape3 X n r c"
  shows "has_shape3 (normalize ops X) n r c"
proof (cases "X = []")
  case True
  with assms show ?thesis by (simp add: normalize_def broadcast_def has_shape3_def)
next
  case False
  have "has_shape (reduce_axis0 (np_mean ops) X) r c"
    and "has_shape (reduce_axis0 (np_std ops) X) r c"
    using assms False by (rule has_shape_reduce_axis0)+
  then show ?thesis unfolding normalize_def
    by (intro has_shape3_broadcast assms)
qed

lemma normalize_nth:
  assumes "has_shape3 X n r c" and "i < n" and "j < r" and "k < c"
  shows "normalize ops X ! i ! j ! k =
    np_divide ops (np_subtract ops (X ! i ! j ! k) (np_mean ops (column X j k)))
      (np_std ops (column X j k))"
proof -
  from assms(1,2) have ne: "X \<noteq> []" by (auto simp: has_shape3_def)
  have mu: "has_shape (reduce_axis0 (np_mean ops) X) r c"
    and sigma: "has_shape (reduce_axis0 (np_std ops) X) r c"
    using assms(1) ne by (rule has_shape_reduce_axis0)+
  have c: "has_shape3 (broadcast (np_subtract ops) X (reduce_axis0 (np_mean ops) X)) n r c"
    using assms(1) mu by (rule has_shape3_broadcast)
  show ?thesis
    unfolding normalize_def
    by (simp add: broadcast_nth [OF c sigma assms(2-4)] broadcast_nth [OF assms(1) mu assms(2-4)]
        reduce_axis0_nth [OF assms(1) ne assms(3,4)])
qed

lemma newaxis_shape: "has_shape3 X n r c \<Longrightarrow> has_shape4 (newaxis X) n r c 1"
  by (auto simp: has_shape4_def has_shape3_def has_shape_def newaxis_def)

lemma newaxis_nth:
  assumes "has_shape3 X n r c" and "i < n" and "j < r" and "k < c"
  shows "newaxis X ! i ! j ! k = [X ! i ! j ! k]"
proof -
  have "length X = n" using assms(1) by (simp add: has_shape3_def)
  moreover have "has_shape (X ! i) r c" using assms(1,2) by (rule has_shape3_nth)
  then have "length (X ! i) = r" and "length (X ! i ! j) = c"
    using assms(3) by (auto simp: has_shape_def)
  ultimately show ?thesis using assms(2-4) by (simp add: newaxis_def)
qed

subsection \<open>Label encoding and one-hot rows\<close>

lemma set_np_unique: "set (np_unique y) = set y"
  by (simp add: np_unique_def)

lemma distinct_np_unique: "distinct (np_unique y)"
  by (simp add: np_unique_def)

lemma sorted_np_unique: "sorted (np_unique y)"
  by (simp add: np_unique_def)

lemma length_np_unique: "length (np_unique y) = card (set y)"
  using distinct_card [OF distinct_np_unique, of y] by (simp add: set_np_unique)

lemma index_of_less: "v \<in> set xs \<Longrightarrow> index_of v xs < length xs"
  by (induction xs) auto

lemma nth_index_of: "v \<in> set xs \<Longrightarrow> xs ! index_of v xs = v"
  by (induction xs) auto

lemma index_of_first:
  "i < length xs \<Longrightarrow> xs ! i = v \<Longrightarrow> (\<forall>j<i. xs ! j \<noteq> v) \<Longrightarrow> index_of v xs = i"
proof (induction xs arbitrary: i)
  case Nil
  then show ?case by simp
next
  case (Cons x xs)
  show ?case
  proof (cases i)
    case 0
    with Cons.prems show ?thesis by simp
  next
    case (Suc k)
    with Cons.prems have "x \<noteq> v" by auto
    moreover have "index_of v xs = k"
    proof (rule Cons.IH)
      show "k < length xs" using Cons.prems Suc by simp
      show "xs ! k = v" using Cons.prems Suc by simp
      show "\<forall>j<k. xs ! j \<noteq> v"
      proof (intro allI impI)
        fix j assume "j < k"
        then have "Suc j < i" using Suc by simp
        with Cons.prems(3) have "(x # xs) ! Suc j \<noteq> v" by blast
        then show "xs ! j \<noteq> v" by simp
      qed
    qed
    ultimately show ?thesis using Suc by simp
  qed
qed

lemma index_of_nth_distinct: "distinct xs \<Longrightarrow> i < length xs \<Longrightarrow> index_of (xs ! i) xs = i"
  by (rule index_of_first) (auto simp: nth_eq_iff_index_eq)

lemma index_of_image: "distinct xs \<Longrightarrow> (\<lambda>v. index_of v xs) ` set xs = {0..<length xs}"
proof (intro equalityI subsetI)
  fix i assume "i \<in> (\<lambda>v. index_of v xs) ` set xs"
  then show "i \<in> {0..<length xs}" by (auto simp: index_of_less)
next
  fix i assume d: "distinct xs" and "i \<in> {0..<length xs}"
  then have i: "i < length xs" by simp
  then have "xs ! i \<in> set xs" by simp
  moreover have "index_of (xs ! i) xs = i" using d i by (rule index_of_nth_distinct)
  ultimately show "i \<in> (\<lambda>v. index_of v xs) ` set xs" by force
qed

lemma fold_max_Max: "fold max cs (c::'a::linorder) = Max (set (c # cs))"
  using Max.set_eq_fold [of c cs] by simp

lemma encoded_set:
  "set (snd (fit_transform y)) = {0..<card (set y)}"
proof -
  have "set (snd (fit_transform y)) = (\<lambda>v. index_of v (np_unique y)) ` set (np_unique y)"
    by (simp add: fit_transform_def Let_def set_np_unique)
  also have "\<dots> = {0..<length (np_unique y)}"
    using distinct_np_unique by (rule index_of_image)
  finally show ?thesis by (simp add: length_np_unique)
qed

lemma num_classes_eq:
  assumes "enc = c # cs" and "set enc = {0..<k::nat}"
  shows "fold max cs c + 1 = k"
proof -
  have "c \<in> set enc" by (simp add: assms(1))
  then have k: "0 < k" unfolding assms(2) by auto
  have "fold max cs c = Max (set enc)" by (simp add: assms(1) fold_max_Max)
  also have "\<dots> = Max {0..<k}" by (simp add: assms(2))
  also have "\<dots> = k - 1"
    by (rule Max_eqI) (use k in auto)
  finally show ?thesis using k by simp
qed

lemma to_categorical_fit:
  assumes "y \<noteq> []"
  shows "to_categorical (snd (fit_transform y)) =
    Inr (map (\<lambda>c. map (\<lambda>j. if j = c then 1 else 0) [0..<card (set y)]) (snd (fit_transform y)))"
proof -
  from assms obtain c cs where e: "snd (fit_transform y) = c # cs"
    by (cases y) (auto simp: fit_transform_def Let_def)
  have "fold max cs c + 1 = card (set y)"
    using e encoded_set by (rule num_classes_eq)
  then show ?thesis unfolding to_categorical_def e by (simp only: list.case Let_def)
qed

lemma onehot_argmax:
  assumes "c < n"
  shows "np_argmax (map (\<lambda>j. if j = c then 1 else 0) [0..<n]) = Inr c"
proof -
  let ?row = "map (\<lambda>j. if j = c then 1 else (0::real)) [0..<n]"
  from assms obtain x xs where row: "?row = x # xs" by (cases ?row) auto
  have "Max (set ?row) = 1"
  proof (rule Max_eqI)
    show "finite (set ?row)" by simp
    show "\<And>v. v \<in> set ?row \<Longrightarrow> v \<le> 1" by auto
    show "1 \<in> set ?row" using assms by force
  qed
  then have "fold max xs x = 1" using row by (simp add: fold_max_Max)
  moreover have "index_of 1 ?row = c"
    by (rule index_of_first) (use assms in auto)
  moreover have "np_argmax ?row = Inr (index_of (fold max xs x) ?row)"
    unfolding np_argmax_def row by simp
  ultimately show ?thesis by simp
qed

lemma argmax_axis1_onehot:
  assumes "\<forall>c \<in> set enc. c < n"
  shows "argmax_axis1 (map (\<lambda>c. map (\<lambda>j. if j = c then 1 else 0) [0..<n]) enc) = Inr enc"
  using assms by (induction enc) (simp_all add: onehot_argmax)

lemma encoded_less: "c \<in> set (snd (fit_transform y)) \<Longrightarrow> c < card (set y)"
  by (simp add: encoded_set)

subsection \<open>The scan: skipped files\<close>

lemma scan_file_skipped:
  "endswith file ''.wav'' \<longrightarrow> length (py_split file CHR ''-'') \<noteq> 7 \<Longrightarrow>
   scan_file subdir file metadata = Inr metadata"
  by (simp add: scan_file_def)

lemma scan_files_skipped:
  "\<forall>f \<in> set files. endswith f ''.wav'' \<longrightarrow> length (py_split f CHR ''-'') \<noteq> 7 \<Longrightarrow>
   scan_files subdir files metadata = Inr metadata"
  by (induction files) (simp_all add: scan_file_skipped)

lemma scan_walk_skipped:
  "\<forall>(subdir, dirs, files) \<in> set entries.
     \<forall>f \<in> set files. endswith f ''.wav'' \<longrightarrow> length (py_split f CHR ''-'') \<noteq> 7 \<Longrightarrow>
   scan_walk entries metadata = Inr metadata"
  by (induction entries metadata rule: scan_walk.induct) (simp_all add: scan_files_skipped)

lemma scan_roots_skipped:
  "\<forall>r \<in> set roots. \<forall>(subdir, dirs, files) \<in> set (os_walk r).
     \<forall>f \<in> set files. endswith f ''.wav'' \<longrightarrow> length (py_split f CHR ''-'') \<noteq> 7 \<Longrightarrow>
   scan_roots os_walk roots metadata = Inr metadata"
  by (induction roots) (simp_all add: scan_walk_skipped)

subsection \<open>The dataset loop\<close>

text \<open>
  What the clause \<open>except Exception\<close> lets through is exactly what is outside that
  class; when the library raises only instances of \<open>Exception\<close> for a path, the call
  returns.
\<close>

lemma extract_mfcc_propagates:
  "mfcc_body librosa_load librosa_mfcc path n_mfcc max_pad_len = Inl (BaseException m) \<Longrightarrow>
   extract_mfcc librosa_load librosa_mfcc path n_mfcc max_pad_len = Inl (BaseException m)"
  by (simp add: extract_mfcc_def)

lemma extract_mfcc_returns:
  assumes "\<forall>e. librosa_load path = Inl e \<longrightarrow> is_Exception e"
    and "\<forall>audio sr e. librosa_load path = Inr (audio, sr) \<and> librosa_mfcc audio sr n_mfcc = Inl e
           \<longrightarrow> is_Exception e"
  shows "\<exists>r out. extract_mfcc librosa_load librosa_mfcc path n_mfcc max_pad_len = Inr (r, out)"
proof (cases "librosa_load path")
  case (Inl e)
  with assms(1) obtain m where "e = Exception m" by (cases e) auto
  with Inl show ?thesis by (simp add: extract_mfcc_def mfcc_body_def)
next
  case (Inr a)
  obtain audio sr where a: "a = (audio, sr)" by (cases a)
  show ?thesis
  proof (cases "librosa_mfcc audio sr n_mfcc")
    case (Inl e)
    with assms(2) Inr a obtain m where "e = Exception m" by (cases e) auto
    with Inl Inr a show ?thesis by (simp add: extract_mfcc_def mfcc_body_def)
  next
    case mf: (Inr mfcc)
    with Inr a show ?thesis by (simp add: extract_mfcc_def mfcc_body_def Let_def)
  qed
qed

lemma row_returns_if_only_Exceptions:
  assumes "\<forall>e. librosa_load (filepath row) = Inl e \<longrightarrow> is_Exception e"
    and "\<forall>audio sr e. librosa_load (filepath row) = Inr (audio, sr) \<and> librosa_mfcc audio sr 40 = Inl e
           \<longrightarrow> is_Exception e"
  shows "row_returns librosa_load librosa_mfcc row"
  using extract_mfcc_returns [where librosa_load = librosa_load and librosa_mfcc = librosa_mfcc
      and path = "filepath row" and n_mfcc = 40 and max_pad_len = 174, OF assms]
  by (auto simp: row_returns_def)

lemma zip_map_filter:
  "zip (List.map_filter f xs) (map g (filter (\<lambda>x. f x \<noteq> None) xs)) =
   map (\<lambda>x. (the (f x), g x)) (filter (\<lambda>x. f x \<noteq> None) xs)"
  by (induction xs) (auto simp: List.map_filter_simps split: option.splits)

lemma length_map_filter:
  "length (List.map_filter f xs) = length (filter (\<lambda>x. f x \<noteq> None) xs)"
  by (induction xs) (auto simp: List.map_filter_simps split: option.splits)

lemma dataset_loop_result:
  assumes "\<forall>row \<in> set rows. row_returns librosa_load librosa_mfcc row"
  shows "dataset_loop librosa_load librosa_mfcc rows X y out =
    Inr (X @ List.map_filter (row_mfcc librosa_load librosa_mfcc) rows,
         y @ map emotion (filter (\<lambda>row. row_mfcc librosa_load librosa_mfcc row \<noteq> None) rows),
         out @ concat (map (row_printed librosa_load librosa_mfcc) rows))"
  using assms
proof (induction rows arbitrary: X y out)
  case Nil
  then show ?case by (simp add: List.map_filter_simps)
next
  case (Cons row rows)
  from Cons.prems have rest: "\<forall>row \<in> set rows. row_returns librosa_load librosa_mfcc row"
    by simp
  from Cons.prems obtain r printed
    where e: "extract_mfcc librosa_load librosa_mfcc (filepath row) 40 174 = Inr (r, printed)"
    by (cases "extract_mfcc librosa_load librosa_mfcc (filepath row) 40 174")
       (auto simp: row_returns_def)
  show ?case
  proof (cases r)
    case None
    with e show ?thesis
      by (simp add: Cons.IH [OF rest] row_mfcc_def row_printed_def List.map_filter_simps)
  next
    case (Some m)
    with e show ?thesis
      by (simp add: Cons.IH [OF rest] row_mfcc_def row_printed_def List.map_filter_simps)
  qed
qed

subsection \<open>What load\_data returns\<close>

lemma load_data_returns:
  assumes "np_load_X x_path = Inr X0" and "np_load_y y_path = Inr y" and "y \<noteq> []"
  shows "load_data np_load_X np_load_y ops x_path y_path =
    Inr (newaxis (normalize ops X0),
         map (\<lambda>c. map (\<lambda>j. if j = c then 1 else 0) [0..<card (set y)]) (snd (fit_transform y)),
         fst (fit_transform y))"
  using assms to_categorical_fit [OF assms(3)]
  by (simp add: load_data_def Let_def split_beta)

lemma ieee_div_zero: "is_zero z \<Longrightarrow> \<not> is_finite (ieee_div x z)"
  by (cases x; cases z) auto

lemma fst_fit_transform: "fst (fit_transform y) = np_unique y"
  by (simp add: fit_transform_def Let_def)

lemma length_snd_fit_transform: "length (snd (fit_transform y)) = length y"
  by (simp add: fit_transform_def Let_def)

text \<open>An audio library that cannot read one file, for the example of the dataset loop.\<close>

lemma example_extraction:
  "extract_mfcc (\<lambda>p. if p = ''bad.wav'' then Inl (Exception ''corrupt'') else Inr (p, 16000::nat))
     (\<lambda>a r n. Inr (replicate n [int (length a)])) path 40 174 =
   (if path = ''bad.wav'' then Inr (None, [''Error processing bad.wav: corrupt''])
    else Inr (Some (replicate 40 (int (length path) # replicate 173 0)), []))"
proof -
  have "shape1 (replicate 40 [int (length path)]) = 1"
    by (rule shape1_eq [where r = 40]) (simp_all add: has_shape_def)
  then show ?thesis
    by (simp add: extract_mfcc_def mfcc_body_def np_pad_def)
qed

section \<open>The claims\<close>



text \<open>
  C2. Whatever the number \<open>t\<close> of frames the audio library computes for a recording,
  a call of \<open>extract_mfcc\<close> with the default arguments that succeeds returns a matrix
  of shape (40, 174): for \<open>t < 174\<close> every row is extended on the right by
  \<open>174 - t\<close> zeros, for \<open>t > 174\<close> every row is cut to its first 174 entries.
  The library's contract is a hypothesis: for 40 coefficients it returns 40 rows of
  \<open>t\<close> frames each.
\<close>

theorem extract_mfcc_shape:
  assumes "librosa_load path = Inr (audio, sr)"
    and "librosa_mfcc audio sr 40 = Inr mfcc"
    and "has_shape mfcc 40 t"
  shows "\<exists>m. extract_mfcc librosa_load librosa_mfcc path 40 174 = Inr (Some m, [])
      \<and> has_shape m 40 174
      \<and> (t < 174 \<longrightarrow> m = map (\<lambda>row. row @ replicate (174 - t) 0) mfcc)
      \<and> (174 < t \<longrightarrow> m = map (take 174) mfcc)
      \<and> (t = 174 \<longrightarrow> m = mfcc)"
proof (cases "t < 174")
  case True
  have s: "shape1 mfcc = t" using assms(3) by (simp add: shape1_eq)
  have "has_shape (np_pad mfcc (174 - t)) 40 (t + (174 - t))"
    using assms(3) by (rule has_shape_np_pad)
  with True have "has_shape (np_pad mfcc (174 - t)) 40 174" by simp
  with True s assms(1,2) show ?thesis
    by (simp add: extract_mfcc_def mfcc_body_def np_pad_def)
next
  case False
  have s: "shape1 mfcc = t" using assms(3) by (simp add: shape1_eq)
  from False have "has_shape (slice_cols mfcc 174) 40 174"
    using assms(3) by (simp add: has_shape_slice_cols)
  moreover have "t = 174 \<Longrightarrow> slice_cols mfcc 174 = mfcc"
    using assms(3) by (simp add: slice_cols_id)
  ultimately show ?thesis using False s assms(1,2)
    by (auto simp add: extract_mfcc_def mfcc_body_def slice_cols_def)
qed

text \<open>A recording of 3 frames is padded, one of 200 frames is cut.\<close>

theorem extract_mfcc_shape_witness:
  "extract_mfcc (\<lambda>p. Inr (''pcm'', 48000::nat)) (\<lambda>a r n. Inr (replicate n [1, 2, 3 :: int]))
       ''a.wav'' 40 174
     = Inr (Some (replicate 40 ([1, 2, 3] @ replicate 171 0)), [])
   \<and> has_shape (replicate 40 ([1, 2, 3] @ replicate 171 (0::int))) 40 174
   \<and> extract_mfcc (\<lambda>p. Inr (''pcm'', 48000::nat)) (\<lambda>a r n. Inr (replicate n (map int [0..<200])))
       ''b.wav'' 40 174
     = Inr (Some (replicate 40 (map int [0..<174])), [])"
proof -
  have h: "has_shape (replicate 40 [1, 2, 3 :: int]) 40 3"
    by (simp add: has_shape_def)
  have h': "has_shape (replicate 40 (map int [0..<200])) 40 200"
    by (simp add: has_shape_def)
  have t: "take 174 (map int [0..<200]) = map int [0..<174]"
    by (simp add: take_map)
  show ?thesis
    using extract_mfcc_shape [of "\<lambda>p. Inr (''pcm'', 48000::nat)" "''a.wav''" "''pcm''" "48000"
        "\<lambda>a r n. Inr (replicate n [1, 2, 3 :: int])" "replicate 40 [1, 2, 3 :: int]" 3, OF _ _ h]
      extract_mfcc_shape [of "\<lambda>p. Inr (''pcm'', 48000::nat)" "''b.wav''" "''pcm''" "48000"
        "\<lambda>a r n. Inr (replicate n (map int [0..<200]))" "replicate 40 (map int [0..<200])" 200, OF _ _ h']
    by (auto simp: t)
qed

text \<open>
  C3. A failure of the decoding or of the MFCC computation (an instance of
  \<open>Exception\<close>, which is what the two library calls raise for a file they cannot
  process) does not leave \<open>extract_mfcc\<close>: the function prints one line that names
  the path and the cause and returns \<open>None\<close>. So, for every path on which the library
  raises nothing outside the class \<open>Exception\<close>, the function returns.
\<close>

theorem extract_mfcc_catches:
  assumes "\<forall>e. librosa_load path = Inl e \<longrightarrow> is_Exception e"
    and "\<forall>audio sr e. librosa_load path = Inr (audio, sr) \<and> librosa_mfcc audio sr n_mfcc = Inl e
           \<longrightarrow> is_Exception e"
  shows "(\<exists>r out. extract_mfcc librosa_load librosa_mfcc path n_mfcc max_pad_len = Inr (r, out))
    \<and> (\<forall>m. librosa_load path = Inl (Exception m) \<longrightarrow>
          extract_mfcc librosa_load librosa_mfcc path n_mfcc max_pad_len
            = Inr (None, [''Error processing '' @ path @ '': '' @ m]))
    \<and> (\<forall>audio sr m. librosa_load path = Inr (audio, sr)
            \<and> librosa_mfcc audio sr n_mfcc = Inl (Exception m) \<longrightarrow>
          extract_mfcc librosa_load librosa_mfcc path n_mfcc max_pad_len
            = Inr (None, [''Error processing '' @ path @ '': '' @ m]))"
proof (intro conjI allI impI)
  show "\<exists>r out. extract_mfcc librosa_load librosa_mfcc path n_mfcc max_pad_len = Inr (r, out)"
    using assms by (rule extract_mfcc_returns)
next
  fix m assume "librosa_load path = Inl (Exception m)"
  then show "extract_mfcc librosa_load librosa_mfcc path n_mfcc max_pad_len
      = Inr (None, [''Error processing '' @ path @ '': '' @ m])"
    by (simp add: extract_mfcc_def mfcc_body_def)
next
  fix audio sr m
  assume "librosa_load path = Inr (audio, sr) \<and> librosa_mfcc audio sr n_mfcc = Inl (Exception m)"
  then show "extract_mfcc librosa_load librosa_mfcc path n_mfcc max_pad_len
      = Inr (None, [''Error processing '' @ path @ '': '' @ m])"
    by (simp add: extract_mfcc_def mfcc_body_def)
qed

text \<open>A missing file, and a file whose MFCC computation fails.\<close>

theorem extract_mfcc_catches_witness:
  "extract_mfcc (\<lambda>p. if p = ''ok.wav'' then Inr (''pcm'', 16000::nat) else Inl (Exception ''No such file''))
       (\<lambda>a r n. Inl (Exception ''Audio buffer is not finite everywhere'') :: raised + int matrix)
       ''missing.wav'' 40 174
     = Inr (None, [''Error processing missing.wav: No such file''])
   \<and> extract_mfcc (\<lambda>p. if p = ''ok.wav'' then Inr (''pcm'', 16000::nat) else Inl (Exception ''No such file''))
       (\<lambda>a r n. Inl (Exception ''Audio buffer is not finite everywhere'') :: raised + int matrix)
       ''ok.wav'' 40 174
     = Inr (None, [''Error processing ok.wav: Audio buffer is not finite everywhere''])"
proof -
  let ?load = "\<lambda>p. if p = ''ok.wav'' then Inr (''pcm'', 16000::nat) else Inl (Exception ''No such file'')"
  let ?mfcc = "\<lambda>(a::string) (r::nat) (n::nat). Inl (Exception ''Audio buffer is not finite everywhere'') :: raised + int matrix"
  have a1: "\<forall>e. ?load ''missing.wav'' = Inl e \<longrightarrow> is_Exception e" by auto
  have a2: "\<forall>audio sr e. ?load ''missing.wav'' = Inr (audio, sr) \<and> ?mfcc audio sr 40 = Inl e
      \<longrightarrow> is_Exception e" by auto
  have b1: "\<forall>e. ?load ''ok.wav'' = Inl e \<longrightarrow> is_Exception e" by auto
  have b2: "\<forall>audio sr e. ?load ''ok.wav'' = Inr (audio, sr) \<and> ?mfcc audio sr 40 = Inl e
      \<longrightarrow> is_Exception e" by auto
  from extract_mfcc_catches [where librosa_load = ?load and librosa_mfcc = ?mfcc
      and path = "''missing.wav''" and n_mfcc = 40 and max_pad_len = 174, OF a1 a2]
    extract_mfcc_catches [where librosa_load = ?load and librosa_mfcc = ?mfcc
      and path = "''ok.wav''" and n_mfcc = 40 and max_pad_len = 174, OF b1 b2]
  show ?thesis by simp
qed

text \<open>
  C4. After the loop over the metadata table the saved feature list and label list have
  the same length, the number of rows whose extraction returned a matrix; entry \<open>i\<close>
  of the labels is the emotion of the row that gave matrix \<open>i\<close>, in the order of the
  table; and for a dropped row nothing is printed but what \<open>extract_mfcc\<close> printed.
  The hypothesis is that no call is left by an exception (see C3).
\<close>

theorem build_dataset_aligned:
  assumes "\<forall>row \<in> set df. row_returns librosa_load librosa_mfcc row"
  shows "\<exists>d. build_dataset librosa_load librosa_mfcc df = Inr d
    \<and> length (X_mfcc_npy d) = length (y_labels_npy d)
    \<and> length (X_mfcc_npy d)
        = length (filter (\<lambda>row. row_mfcc librosa_load librosa_mfcc row \<noteq> None) df)
    \<and> zip (X_mfcc_npy d) (y_labels_npy d)
        = map (\<lambda>row. (the (row_mfcc librosa_load librosa_mfcc row), emotion row))
            (filter (\<lambda>row. row_mfcc librosa_load librosa_mfcc row \<noteq> None) df)
    \<and> printed_lines d
        = [''Extracting MFCC features...''] @ concat (map (row_printed librosa_load librosa_mfcc) df)
          @ [saved_message]"
  by (simp add: build_dataset_def dataset_loop_result [OF assms] zip_map_filter length_map_filter
      del: not_None_eq)

text \<open>Three rows, the second of which cannot be read.\<close>

theorem build_dataset_aligned_witness:
  "build_dataset (\<lambda>p. if p = ''bad.wav'' then Inl (Exception ''corrupt'') else Inr (p, 16000::nat))
     (\<lambda>a r n. Inr (replicate n [int (length a)]))
     [\<lparr>filename = ''a.wav'', filepath = ''a.wav'', emotion = ''happy'', gender = ''male'', actor_id = 1\<rparr>,
      \<lparr>filename = ''bad.wav'', filepath = ''bad.wav'', emotion = ''sad'', gender = ''female'', actor_id = 2\<rparr>,
      \<lparr>filename = ''cc.wav'', filepath = ''cc.wav'', emotion = ''angry'', gender = ''male'', actor_id = 3\<rparr>]
   = Inr \<lparr>X_mfcc_npy = [replicate 40 (5 # replicate 173 0), replicate 40 (6 # replicate 173 0)],
          y_labels_npy = [''happy'', ''angry''],
          printed_lines = [''Extracting MFCC features...'', ''Error processing bad.wav: corrupt'',
            saved_message]\<rparr>"
proof -
  let ?load = "\<lambda>p. if p = ''bad.wav'' then Inl (Exception ''corrupt'') else Inr (p, 16000::nat)"
  let ?mfcc = "\<lambda>(a::string) (r::nat) n. Inr (replicate n [int (length a)]) :: raised + int matrix"
  let ?df = "[\<lparr>filename = ''a.wav'', filepath = ''a.wav'', emotion = ''happy'', gender = ''male'', actor_id = 1\<rparr>,
      \<lparr>filename = ''bad.wav'', filepath = ''bad.wav'', emotion = ''sad'', gender = ''female'', actor_id = 2\<rparr>,
      \<lparr>filename = ''cc.wav'', filepath = ''cc.wav'', emotion = ''angry'', gender = ''male'', actor_id = 3\<rparr>]"
  have h: "\<forall>row \<in> set ?df. row_returns ?load ?mfcc row"
    by (simp add: row_returns_def example_extraction)
  from build_dataset_aligned [OF h] obtain d where d: "build_dataset ?load ?mfcc ?df = Inr d"
    and z: "zip (X_mfcc_npy d) (y_labels_npy d)
        = map (\<lambda>row. (the (row_mfcc ?load ?mfcc row), emotion row))
            (filter (\<lambda>row. row_mfcc ?load ?mfcc row \<noteq> None) ?df)"
    and l: "length (X_mfcc_npy d) = length (y_labels_npy d)"
    and p: "printed_lines d = [''Extracting MFCC features...''] @ concat (map (row_printed ?load ?mfcc) ?df)
          @ [saved_message]"
    by blast
  have "zip (X_mfcc_npy d) (y_labels_npy d) =
      [(replicate 40 (5 # replicate 173 0), ''happy''), (replicate 40 (6 # replicate 173 0), ''angry'')]"
    unfolding z by (simp add: row_mfcc_def example_extraction)
  with l have "X_mfcc_npy d = [replicate 40 (5 # replicate 173 0), replicate 40 (6 # replicate 173 0)]"
    and "y_labels_npy d = [''happy'', ''angry'']"
    by (auto simp: zip_eq_conv length_Suc_conv)
  moreover have "printed_lines d = [''Extracting MFCC features...'', ''Error processing bad.wav: corrupt'',
            saved_message]"
    unfolding p by (simp add: row_printed_def example_extraction)
  ultimately show ?thesis using d by (cases d) simp
qed

text \<open>
  C5. For a loaded array of shape \<open>(n, r, c)\<close> (for the saved features,
  \<open>(n, 40, 174)\<close>), \<open>load_data\<close> returns a four-dimensional array of shape
  \<open>(n, r, c, 1)\<close> whose entry at sample \<open>i\<close> and position \<open>(j, k)\<close> is
  \<open>(x - mean) / std\<close>, where \<open>x\<close> is the loaded entry there and the mean and the
  standard deviation are those of the values at position \<open>(j, k)\<close> along the sample
  axis. The function returns only for a label file with at least one label.
\<close>

theorem load_data_normalizes:
  assumes "np_load_X x_path = Inr X0" and "np_load_y y_path = Inr y" and "y \<noteq> []"
    and "has_shape3 X0 n r c"
  shows "\<exists>X y_cat le. load_data np_load_X np_load_y ops x_path y_path = Inr (X, y_cat, le)
    \<and> has_shape4 X n r c 1
    \<and> (\<forall>i<n. \<forall>j<r. \<forall>k<c.
          X ! i ! j ! k =
            [np_divide ops (np_subtract ops (X0 ! i ! j ! k) (np_mean ops (column X0 j k)))
               (np_std ops (column X0 j k))])"
proof -
  have s: "has_shape3 (normalize ops X0) n r c"
    using assms(4) by (rule normalize_shape)
  then have "has_shape4 (newaxis (normalize ops X0)) n r c 1"
    by (rule newaxis_shape)
  moreover have "\<forall>i<n. \<forall>j<r. \<forall>k<c. newaxis (normalize ops X0) ! i ! j ! k =
            [np_divide ops (np_subtract ops (X0 ! i ! j ! k) (np_mean ops (column X0 j k)))
               (np_std ops (column X0 j k))]"
    by (simp add: newaxis_nth [OF s] normalize_nth [OF assms(4)])
  ultimately show ?thesis
    using load_data_returns [where np_load_X = np_load_X and np_load_y = np_load_y and ops = ops,
        OF assms(1-3)] by blast
qed

text \<open>Two samples of one row and two columns.\<close>

theorem load_data_normalizes_witness:
  "\<exists>X y_cat le.
     load_data (\<lambda>p. Inr [[[Finite 1, Finite 2]], [[Finite 3, Finite 6]]]) (\<lambda>p. Inr [''sad'', ''calm''])
       ieee_ops ''X_mfcc.npy'' ''y_labels.npy'' = Inr (X, y_cat, le)
     \<and> has_shape4 X 2 1 2 1
     \<and> X ! 0 ! 0 ! 0 = [Finite (- 1)] \<and> X ! 0 ! 0 ! 1 = [Finite (- 1)]
     \<and> X ! 1 ! 0 ! 0 = [Finite 1] \<and> X ! 1 ! 0 ! 1 = [Finite 1]"
proof -
  let ?X0 = "[[[Finite 1, Finite 2]], [[Finite 3, Finite 6]]]"
  have h: "has_shape3 ?X0 2 1 2"
    by (simp add: has_shape3_def has_shape_def)
  have y: "[''sad'', ''calm''] \<noteq> []" by simp
  have m1: "ieee_mean [Finite 1, Finite 3] = Finite 2" and m2: "ieee_mean [Finite 2, Finite 6] = Finite 4"
    by (simp_all add: ieee_mean_def)
  have s1: "ieee_std [Finite 1, Finite 3] = Finite 1"
    by (simp add: ieee_std_def m1 ieee_sub_def ieee_mean_def)
  have "sqrt 4 = 2" by simp
  then have s2: "ieee_std [Finite 2, Finite 6] = Finite 2"
    by (simp add: ieee_std_def m2 ieee_sub_def ieee_mean_def)
  from load_data_normalizes [where np_load_X = "\<lambda>p. Inr ?X0" and np_load_y = "\<lambda>p. Inr [''sad'', ''calm'']"
      and ops = ieee_ops and x_path = "''X_mfcc.npy''" and y_path = "''y_labels.npy''", OF refl refl y h]
  obtain X y_cat le where
    l: "load_data (\<lambda>p. Inr ?X0) (\<lambda>p. Inr [''sad'', ''calm'']) ieee_ops ''X_mfcc.npy'' ''y_labels.npy''
        = Inr (X, y_cat, le)"
    and sh: "has_shape4 X 2 1 2 1"
    and v: "\<forall>i<2. \<forall>j<1. \<forall>k<2. X ! i ! j ! k =
        [np_divide ieee_ops (np_subtract ieee_ops (?X0 ! i ! j ! k) (np_mean ieee_ops (column ?X0 j k)))
               (np_std ieee_ops (column ?X0 j k))]"
    by blast
  have "X ! 0 ! 0 ! 0 = [Finite (- 1)]" "X ! 0 ! 0 ! 1 = [Finite (- 1)]"
    "X ! 1 ! 0 ! 0 = [Finite 1]" "X ! 1 ! 0 ! 1 = [Finite 1]"
    using v by (simp_all add: ieee_ops_def column_def m1 m2 s1 s2 ieee_sub_def)
  with l sh show ?thesis by blast
qed

text \<open>
  C6. Where the standard deviation along the sample axis is zero at a position,
  \<open>load_data\<close> still divides by it: nothing guards the division and the function
  returns as for any other input. The entry at that position is the quotient by zero,
  which is not a finite number under the rule of IEEE 754 arithmetic that a division by
  zero yields an infinity or NaN (the second hypothesis, on the library's division;
  \<open>eq_zero\<close> and \<open>finite_val\<close> tell the zeros and the finite numbers of the
  floating-point type).
\<close>

theorem zero_std_not_guarded:
  assumes "np_load_X x_path = Inr X0" and "np_load_y y_path = Inr y" and "y \<noteq> []"
    and "has_shape3 X0 n r c" and "i < n" and "j < r" and "k < c"
    and "eq_zero (np_std ops (column X0 j k))"
    and "\<forall>x z. eq_zero z \<longrightarrow> \<not> finite_val (np_divide ops x z)"
  shows "\<exists>X y_cat le v. load_data np_load_X np_load_y ops x_path y_path = Inr (X, y_cat, le)
    \<and> X ! i ! j ! k = [v]
    \<and> v = np_divide ops (np_subtract ops (X0 ! i ! j ! k) (np_mean ops (column X0 j k)))
               (np_std ops (column X0 j k))
    \<and> \<not> finite_val v"
proof -
  have s: "has_shape3 (normalize ops X0) n r c"
    using assms(4) by (rule normalize_shape)
  have "newaxis (normalize ops X0) ! i ! j ! k =
            [np_divide ops (np_subtract ops (X0 ! i ! j ! k) (np_mean ops (column X0 j k)))
               (np_std ops (column X0 j k))]"
    by (simp add: newaxis_nth [OF s assms(5-7)] normalize_nth [OF assms(4-7)])
  moreover have "\<not> finite_val (np_divide ops (np_subtract ops (X0 ! i ! j ! k) (np_mean ops (column X0 j k)))
               (np_std ops (column X0 j k)))"
    using assms(8,9) by blast
  ultimately show ?thesis
    using load_data_returns [where np_load_X = np_load_X and np_load_y = np_load_y and ops = ops,
        OF assms(1-3)] by blast
qed

text \<open>A position that holds 5 in every sample: the normalized entry is NaN.\<close>

theorem zero_std_not_guarded_witness:
  "\<exists>X y_cat le.
     load_data (\<lambda>p. Inr [[[Finite 5, Finite 2]], [[Finite 5, Finite 6]]]) (\<lambda>p. Inr [''sad'', ''calm''])
       ieee_ops ''X_mfcc.npy'' ''y_labels.npy'' = Inr (X, y_cat, le)
     \<and> X ! 1 ! 0 ! 0 = [NaN]"
proof -
  let ?X0 = "[[[Finite 5, Finite 2]], [[Finite 5, Finite 6]]]"
  have h: "has_shape3 ?X0 2 1 2"
    by (simp add: has_shape3_def has_shape_def)
  have y: "[''sad'', ''calm''] \<noteq> []" by simp
  have m: "ieee_mean [Finite 5, Finite 5] = Finite 5"
    by (simp add: ieee_mean_def)
  have s: "ieee_std [Finite 5, Finite 5] = Finite 0"
    by (simp add: ieee_std_def m ieee_sub_def ieee_mean_def)
  have z: "is_zero (np_std ieee_ops (column ?X0 0 0))"
    by (simp add: ieee_ops_def column_def s)
  have d: "\<forall>x z. is_zero z \<longrightarrow> \<not> is_finite (np_divide ieee_ops x z)"
    by (simp add: ieee_ops_def ieee_div_zero)
  from zero_std_not_guarded [where np_load_X = "\<lambda>p. Inr ?X0" and np_load_y = "\<lambda>p. Inr [''sad'', ''calm'']"
      and ops = ieee_ops and x_path = "''X_mfcc.npy''" and y_path = "''y_labels.npy''"
      and eq_zero = is_zero and finite_val = is_finite and i = 1 and j = 0 and k = 0,
      OF refl refl y h _ _ _ z d]
  obtain X y_cat le v where
    l: "load_data (\<lambda>p. Inr ?X0) (\<lambda>p. Inr [''sad'', ''calm'']) ieee_ops ''X_mfcc.npy'' ''y_labels.npy''
        = Inr (X, y_cat, le)"
    and x: "X ! 1 ! 0 ! 0 = [v]"
    and v: "v = np_divide ieee_ops (np_subtract ieee_ops (?X0 ! 1 ! 0 ! 0) (np_mean ieee_ops (column ?X0 0 0)))
               (np_std ieee_ops (column ?X0 0 0))"
    by auto
  have "v = NaN"
    unfolding v by (simp add: ieee_ops_def column_def m s ieee_sub_def)
  with l x show ?thesis by blast
qed

text \<open>
  C7. For every label vector with at least one label, the classes of the encoder are the
  distinct labels in sorted order, and taking in each row of the one-hot matrix the
  index of its greatest entry and reading the class at that index gives back the label
  of the sample, for every sample.
\<close>

theorem label_round_trip:
  assumes "np_load_X x_path = Inr X0" and "np_load_y y_path = Inr y" and "y \<noteq> []"
  shows "\<exists>X y_cat le idx. load_data np_load_X np_load_y ops x_path y_path = Inr (X, y_cat, le)
    \<and> sorted le \<and> distinct le \<and> set le = set y
    \<and> argmax_axis1 y_cat = Inr idx
    \<and> length idx = length y
    \<and> (\<forall>i<length y. idx ! i < length le \<and> le ! (idx ! i) = y ! i)"
proof -
  let ?le = "fst (fit_transform y)"
  let ?enc = "snd (fit_transform y)"
  let ?cat = "map (\<lambda>c. map (\<lambda>j. if j = c then 1 else 0) [0..<card (set y)]) ?enc"
  have l: "load_data np_load_X np_load_y ops x_path y_path = Inr (newaxis (normalize ops X0), ?cat, ?le)"
    using assms by (rule load_data_returns)
  have a: "argmax_axis1 ?cat = Inr ?enc"
    by (rule argmax_axis1_onehot) (simp add: encoded_less)
  have c: "sorted ?le \<and> distinct ?le \<and> set ?le = set y"
    by (simp add: fst_fit_transform sorted_np_unique distinct_np_unique set_np_unique)
  have "\<forall>i<length y. ?enc ! i < length ?le \<and> ?le ! (?enc ! i) = y ! i"
  proof (intro allI impI)
    fix i assume i: "i < length y"
    then have "?enc ! i = index_of (y ! i) (np_unique y)"
      by (simp add: fit_transform_def Let_def)
    moreover have "y ! i \<in> set (np_unique y)" using i by (simp add: set_np_unique)
    ultimately show "?enc ! i < length ?le \<and> ?le ! (?enc ! i) = y ! i"
      by (simp add: fst_fit_transform index_of_less nth_index_of)
  qed
  with l a c show ?thesis using length_snd_fit_transform [of y] by blast
qed

text \<open>Four labels of three classes.\<close>

theorem label_round_trip_witness:
  "\<exists>X y_cat.
     load_data (\<lambda>p. Inr [[[Finite 1]], [[Finite 3]], [[Finite 4]], [[Finite 9]]])
       (\<lambda>p. Inr [''sad'', ''angry'', ''sad'', ''calm''])
       ieee_ops ''X_mfcc.npy'' ''y_labels.npy'' = Inr (X, y_cat, [''angry'', ''calm'', ''sad''])
     \<and> y_cat = [[0, 0, 1], [1, 0, 0], [0, 0, 1], [0, 1, 0]]
     \<and> argmax_axis1 y_cat = Inr [2, 0, 2, 1]
     \<and> map (\<lambda>c. [''angry'', ''calm'', ''sad''] ! c) [2, 0, 2, 1] = [''sad'', ''angry'', ''sad'', ''calm'']"
proof -
  let ?y = "[''sad'', ''angry'', ''sad'', ''calm'']"
  let ?X0 = "[[[Finite 1]], [[Finite 3]], [[Finite 4]], [[Finite 9]]]"
  have y: "?y \<noteq> []" by simp
  have u: "np_unique ?y = [''angry'', ''calm'', ''sad'']"
    by code_simp
  have f: "fit_transform ?y = ([''angry'', ''calm'', ''sad''], [2, 0, 2, 1])"
    unfolding fit_transform_def u Let_def by simp
  have t: "to_categorical [2, 0, 2, 1] = Inr [[0, 0, 1], [1, 0, 0], [0, 0, 1], [0, 1, 0]]"
    by (simp add: to_categorical_def upt_rec)
  from label_round_trip [where np_load_X = "\<lambda>p. Inr ?X0" and np_load_y = "\<lambda>p. Inr ?y"
      and ops = ieee_ops and x_path = "''X_mfcc.npy''" and y_path = "''y_labels.npy''", OF refl refl y]
  obtain X y_cat le idx where
    l: "load_data (\<lambda>p. Inr ?X0) (\<lambda>p. Inr ?y) ieee_ops ''X_mfcc.npy'' ''y_labels.npy'' = Inr (X, y_cat, le)"
    and a: "argmax_axis1 y_cat = Inr idx"
    by blast
  from l have "le = [''angry'', ''calm'', ''sad'']" and c: "y_cat = [[0, 0, 1], [1, 0, 0], [0, 0, 1], [0, 1, 0]]"
    by (simp_all add: load_data_def f t del: One_nat_def)
  moreover have "argmax_axis1 [[0, 0, 1], [1, 0, 0], [0, 0, 1], [0, 1, 0]] = Inr [2, 0, 2, 1]"
    by (simp add: np_argmax_def)
  ultimately show ?thesis using l by simp
qed

text \<open>
  C8. A file name ending in \<open>.wav\<close> that does not split on \<open>-\<close> into exactly seven
  parts leaves the metadata table as it was and raises nothing, and the scan goes on with
  the files after it; when no \<open>.wav\<close> file under the roots has seven parts (an empty
  or wholly malformed tree), the scan returns the empty table.
\<close>

theorem malformed_name_skipped:
  "(endswith file ''.wav'' \<and> length (py_split file CHR ''-'') \<noteq> 7 \<longrightarrow>
      scan_file subdir file metadata = Inr metadata
      \<and> scan_files subdir (file # files) metadata = scan_files subdir files metadata)
   \<and> ((\<forall>r \<in> set root_dirs. \<forall>(subdir, dirs, files) \<in> set (os_walk r).
          \<forall>f \<in> set files. endswith f ''.wav'' \<longrightarrow> length (py_split f CHR ''-'') \<noteq> 7) \<longrightarrow>
        scan os_walk = Inr [])"
proof (intro conjI impI)
  assume bad: "endswith file ''.wav'' \<and> length (py_split file CHR ''-'') \<noteq> 7"
  then show skip: "scan_file subdir file metadata = Inr metadata"
    by (simp add: scan_file_skipped)
  then show "scan_files subdir (file # files) metadata = scan_files subdir files metadata"
    by simp
next
  assume "\<forall>r \<in> set root_dirs. \<forall>(subdir, dirs, files) \<in> set (os_walk r).
      \<forall>f \<in> set files. endswith f ''.wav'' \<longrightarrow> length (py_split f CHR ''-'') \<noteq> 7"
  then have "scan_roots os_walk root_dirs [] = Inr []"
    by (rule scan_roots_skipped)
  then show "scan os_walk = Inr []"
    by (simp add: scan_def)
qed

theorem malformed_name_skipped_witness:
  "scan_file ''input'' ''badname.wav'' [] = Inr []
   \<and> scan_files ''input'' [''badname.wav'', ''03-01-05-01-01-01-12.wav''] []
       = scan_files ''input'' [''03-01-05-01-01-01-12.wav''] []
   \<and> scan (\<lambda>r. if r = ''input'' then [(''input'', [], [''badname.wav'', ''a-b.wav'', ''notes.txt''])] else [])
       = Inr []"
proof -
  have h1: "endswith ''badname.wav'' ''.wav'' \<and> length (py_split ''badname.wav'' CHR ''-'') \<noteq> 7"
    by (simp add: endswith_def py_split_def)
  have h2: "\<forall>r \<in> set root_dirs.
      \<forall>(subdir, dirs, files) \<in> set (if r = ''input'' then [(''input'', [], [''badname.wav'', ''a-b.wav'', ''notes.txt''])] else []).
        \<forall>f \<in> set files. endswith f ''.wav'' \<longrightarrow> length (py_split f CHR ''-'') \<noteq> 7"
    by (simp add: root_dirs_def endswith_def py_split_def)
  from malformed_name_skipped [of "''badname.wav''" "''input''" "[]" "[''03-01-05-01-01-01-12.wav'']"
      "\<lambda>r. if r = ''input'' then [(''input'', [], [''badname.wav'', ''a-b.wav'', ''notes.txt''])] else []"]
    h1 h2
  show ?thesis by blast
qed

text \<open>
  C9. The one-hot matrix returned by \<open>load_data\<close> has one row per label, and the
  width of every row and the number of classes of the encoder are the number of distinct
  labels in the label file. The model that \<open>main\<close> builds has 8 output units whatever
  the files hold.
\<close>

theorem num_classes_from_labels:
  assumes "np_load_X x_path = Inr X0" and "np_load_y y_path = Inr y" and "y \<noteq> []"
  shows "(\<exists>X y_cat le. load_data np_load_X np_load_y ops x_path y_path = Inr (X, y_cat, le)
      \<and> length y_cat = length y
      \<and> (\<forall>row \<in> set y_cat. length row = card (set y))
      \<and> length le = card (set y))
    \<and> (\<forall>parts m. main_model np_load_X' np_load_y' ops' train_test_split = Inr (parts, m) \<longrightarrow>
          m = build_model (40, 174, 1) 8 \<and> output_units m = Some 8)"
proof -
  have "load_data np_load_X np_load_y ops x_path y_path =
    Inr (newaxis (normalize ops X0),
         map (\<lambda>c. map (\<lambda>j. if j = c then 1 else 0) [0..<card (set y)]) (snd (fit_transform y)),
         fst (fit_transform y))"
    using assms by (rule load_data_returns)
  then have "\<exists>X y_cat le. load_data np_load_X np_load_y ops x_path y_path = Inr (X, y_cat, le)
      \<and> length y_cat = length y
      \<and> (\<forall>row \<in> set y_cat. length row = card (set y))
      \<and> length le = card (set y)"
    by (auto simp: length_snd_fit_transform fst_fit_transform length_np_unique)
  moreover have "\<forall>parts m. main_model np_load_X' np_load_y' ops' train_test_split = Inr (parts, m) \<longrightarrow>
          m = build_model (40, 174, 1) 8 \<and> output_units m = Some 8"
    by (auto simp: main_model_def build_model_def output_units_def split: sum.splits)
  ultimately show ?thesis by blast
qed

text \<open>A label file with three classes: the one-hot rows have width 3, the model 8 outputs.\<close>

theorem num_classes_from_labels_witness:
  "\<exists>X y_cat le m.
     load_data (\<lambda>p. Inr [[[Finite 1]], [[Finite 3]], [[Finite 4]], [[Finite 9]]])
       (\<lambda>p. Inr [''sad'', ''angry'', ''sad'', ''calm''])
       ieee_ops ''X_mfcc.npy'' ''y_labels.npy'' = Inr (X, y_cat, le)
     \<and> set (map length y_cat) = {3} \<and> length le = 3
     \<and> main_model (\<lambda>p. Inr [[[Finite 1]], [[Finite 3]], [[Finite 4]], [[Finite 9]]])
         (\<lambda>p. Inr [''sad'', ''angry'', ''sad'', ''calm'']) ieee_ops
         (\<lambda>X y test_size random_state stratify. Inr (take 3 X, drop 3 X, take 3 y, drop 3 y))
       = Inr ((take 3 X, drop 3 X, take 3 y_cat, drop 3 y_cat), m)
     \<and> output_units m = Some 8"
proof -
  let ?y = "[''sad'', ''angry'', ''sad'', ''calm'']"
  let ?X0 = "[[[Finite 1]], [[Finite 3]], [[Finite 4]], [[Finite 9]]]"
  let ?LX = "\<lambda>p::string. Inr ?X0 :: train_error + ieee tensor3"
  let ?Ly = "\<lambda>p::string. Inr ?y :: train_error + string list"
  let ?tts = "\<lambda>(X::ieee tensor4) (y::real matrix) (test_size::real) (random_state::nat) (stratify::real matrix).
      Inr (take 3 X, drop 3 X, take 3 y, drop 3 y) :: train_error + (ieee tensor4 \<times> ieee tensor4 \<times> real matrix \<times> real matrix)"
  have y: "?y \<noteq> []" by simp
  have card: "card (set ?y) = 3" unfolding List.card_set by simp
  from num_classes_from_labels [where np_load_X = ?LX and np_load_y = ?Ly
      and ops = ieee_ops and x_path = "''X_mfcc.npy''" and y_path = "''y_labels.npy''"
      and np_load_X' = ?LX and np_load_y' = ?Ly and ops' = ieee_ops and train_test_split = ?tts,
      OF refl refl y]
  obtain X y_cat le where
    l: "load_data ?LX ?Ly ieee_ops ''X_mfcc.npy'' ''y_labels.npy'' = Inr (X, y_cat, le)"
    and n: "length y_cat = length ?y"
    and w: "\<forall>row \<in> set y_cat. length row = card (set ?y)"
    and c: "length le = card (set ?y)"
    and m: "\<forall>parts m. main_model ?LX ?Ly ieee_ops ?tts = Inr (parts, m) \<longrightarrow>
          m = build_model (40, 174, 1) 8 \<and> output_units m = Some 8"
    by blast
  have mm: "main_model ?LX ?Ly ieee_ops ?tts
      = Inr ((take 3 X, drop 3 X, take 3 y_cat, drop 3 y_cat), build_model (40, 174, 1) 8)"
    by (simp add: main_model_def l split_data_def)
  with m have "output_units (build_model (40, 174, 1) 8) = Some 8" by blast
  moreover from n have "y_cat \<noteq> []" by auto
  with w have "set (map length y_cat) = {3}" unfolding card by (cases y_cat) auto
  ultimately show ?thesis using l mm c card by auto
qed



end
